theory Spec2Isabelle
  imports Complex_Main "HOL-Library.AList" "HOL-Library.Monad_Syntax"
begin

section \<open>The web-of-trust key ring (package awot)\<close>

text \<open>
  A shallow embedding of the key ring of the awot package (\<^verbatim>\<open>KeyRing\<close> and its methods).

  Conventions of the embedding.
  \<^item> A result of type \<open>'a option\<close> is \<open>None\<close> exactly when the Go process would stop
    there: a \<^verbatim>\<open>log.Fatal\<close> of the source, a panic of the graph library
    (\<^verbatim>\<open>AddNode\<close> on an ID in use, \<^verbatim>\<open>SetEdge\<close> between equal IDs) or a nil dereference.
  \<^item> \<^verbatim>\<open>float32\<close> and \<^verbatim>\<open>float64\<close> values are modelled by exact reals: rounding and
    NaN are outside the model. The infinite weight of an unreachable node is the
    distance \<open>None\<close>.
  \<^item> A Go map that the code ranges over is an association list, read with \<open>map_of\<close>
    and written with \<open>AList.update\<close>; a map that is only read and written by key is a
    HOL map.
  \<^item> The mutexes are not modelled: every function is one sequential run.
\<close>

subsection \<open>Keys, records and messages\<close>

text \<open>\<^verbatim>\<open>rsa.PublicKey{N *big.Int, E int}\<close>; a nil \<^verbatim>\<open>N\<close> is \<open>None\<close>.\<close>

record PublicKey =
  N :: "int option"
  E :: int

text \<open>The zero value \<^verbatim>\<open>rsa.PublicKey{}\<close>.\<close>

definition zero_key :: PublicKey where
  "zero_key = \<lparr>N = None, E = 0\<rparr>"

record KeyRecord =
  Owner :: string
  KeyPub :: PublicKey

record TrustedKeyRecord = KeyRecord +
  Confidence :: real

definition zero_record :: TrustedKeyRecord where
  "zero_record = \<lparr>Owner = [], KeyPub = zero_key, Confidence = 0\<rparr>"

text \<open>
  The fields of \<^verbatim>\<open>KeyExchangeMessage\<close> that the key ring reads (\<^verbatim>\<open>msg.Owner\<close> is
  \<open>MsgOwner\<close> here), and the signature bytes it carries.
\<close>

record KeyExchangeMessage =
  Origin :: string
  MsgOwner :: string
  KeyBytes :: string
  Signature :: string

text \<open>
  The key of the \<^verbatim>\<open>occurrences\<close> map of \<^verbatim>\<open>selectBestPaths\<close> is the string
  \<^verbatim>\<open>key.N.String()+"-"+string(key.E)\<close>. \<^verbatim>\<open>string(int)\<close> yields the UTF-8 encoding of one
  code point, U+FFFD for an integer that is not a valid code point; the decimal
  \<^verbatim>\<open>N.String()\<close> (or \<^verbatim>\<open><nil>\<close>) is followed by \<^verbatim>\<open>-\<close> and that single code point, so the
  string determines, and is determined by, the pair below. The empty string, the
  initial \<^verbatim>\<open>bkey\<close>, is no such string.
\<close>

definition rune_of :: "int \<Rightarrow> int" where
  "rune_of e = (if 0 \<le> e \<and> e \<le> 1114111 \<and> \<not> (55296 \<le> e \<and> e \<le> 57343) then e else 65533)"

type_synonym keystr = "int option \<times> int"

definition keyString :: "PublicKey \<Rightarrow> keystr" where
  "keyString key = (N key, rune_of (E key))"

subsection \<open>The directed graph of the library\<close>

text \<open>
  \<^verbatim>\<open>simple.DirectedGraph\<close>: the IDs of its nodes and its edges, one per ordered pair of
  IDs. An \<^verbatim>\<open>Edge{F, T, Key}\<close> is stored under \<open>(F.id, T.id)\<close> with its key.
\<close>

record DirectedGraph =
  nodes :: "nat list"
  edges :: "((nat \<times> nat) \<times> PublicKey) list"

definition NewDirectedGraph :: DirectedGraph where
  "NewDirectedGraph = \<lparr>nodes = [], edges = []\<rparr>"

text \<open>\<^verbatim>\<open>AddNode\<close> panics when the ID is in use.\<close>

definition AddNode :: "nat \<Rightarrow> DirectedGraph \<Rightarrow> DirectedGraph option" where
  "AddNode n g = (if n \<in> set (nodes g) then None else Some (g\<lparr>nodes := nodes g @ [n]\<rparr>))"

definition ensureNode :: "nat \<Rightarrow> nat list \<Rightarrow> nat list" where
  "ensureNode n ns = (if n \<in> set ns then ns else ns @ [n])"

text \<open>\<^verbatim>\<open>SetEdge\<close> panics on a self edge, adds missing end points and replaces the edge.\<close>

definition SetEdge :: "nat \<Rightarrow> nat \<Rightarrow> PublicKey \<Rightarrow> DirectedGraph \<Rightarrow> DirectedGraph option" where
  "SetEdge f t key g =
     (if f = t then None
      else Some (g\<lparr>nodes := ensureNode t (ensureNode f (nodes g)),
                   edges := AList.update (f, t) key (edges g)\<rparr>))"

text \<open>\<^verbatim>\<open>g.Node(id)\<close>: the node of that ID, nil when there is none.\<close>

definition Node :: "DirectedGraph \<Rightarrow> nat \<Rightarrow> nat option" where
  "Node g i = (if i \<in> set (nodes g) then Some i else None)"

text \<open>\<^verbatim>\<open>g.Edge(s, t)\<close>: the edge from s to t, nil when there is none; only its key is read.\<close>

definition Edge :: "DirectedGraph \<Rightarrow> nat \<Rightarrow> nat \<Rightarrow> PublicKey option" where
  "Edge g s t = map_of (edges g) (s, t)"

definition succs :: "DirectedGraph \<Rightarrow> nat \<Rightarrow> nat list" where
  "succs g u = map (\<lambda>e. snd (fst e)) (filter (\<lambda>e. fst (fst e) = u) (edges g))"

text \<open>All walks of exactly \<open>n\<close> edges that start at \<open>u\<close>.\<close>

fun walks :: "DirectedGraph \<Rightarrow> nat \<Rightarrow> nat \<Rightarrow> nat list list" where
  "walks g 0 u = [[u]]"
| "walks g (Suc n) u = concat (map (\<lambda>w. map ((#) u) (walks g n w)) (succs g u))"

definition walks_to :: "DirectedGraph \<Rightarrow> nat \<Rightarrow> nat \<Rightarrow> nat \<Rightarrow> nat list list" where
  "walks_to g n u v = filter (\<lambda>p. last p = v) (walks g n u)"

text \<open>
  \<^verbatim>\<open>path.DijkstraFrom(u, g).WeightTo(v)\<close>. The edges do not implement \<^verbatim>\<open>Weighted\<close>, so
  the library uses the uniform cost 1 and the weight is the least number of edges of
  a walk from u to v: 0 for \<open>u = v\<close>, infinite (\<open>None\<close>) when there is none. A shortest
  walk repeats no edge, so the search stops at the number of edges.
\<close>

definition WeightTo :: "DirectedGraph \<Rightarrow> nat \<Rightarrow> nat \<Rightarrow> nat option" where
  "WeightTo g u v = find (\<lambda>n. walks_to g n u v \<noteq> []) [0..<Suc (length (edges g))]"

text \<open>
  \<^verbatim>\<open>path.DijkstraAllPaths(g).AllBetween(u, v)\<close>: every shortest path from u to v, as
  the list of its nodes; the one path \<open>[u]\<close> for \<open>u = v\<close>; no path when v cannot be
  reached. The library fixes no order of the paths; the model lists them in the
  order of the edges.
\<close>

definition AllBetween :: "DirectedGraph \<Rightarrow> nat \<Rightarrow> nat \<Rightarrow> nat list list" where
  "AllBetween g u v = (case WeightTo g u v of None \<Rightarrow> [] | Some n \<Rightarrow> walks_to g n u v)"

subsection \<open>The key table\<close>

text \<open>
  The key table maps a name to its \<^verbatim>\<open>TrustedKeyRecord\<close>. Its implementation is not
  among the sources at hand; its four operations follow the specification, section 4.1.
\<close>

type_synonym keyTable = "string \<rightharpoonup> TrustedKeyRecord"

text \<open>
  Modelled from the spec: \<^verbatim>\<open>newKeyTable(owner, key)\<close> is missing. The specification
  describes no entry of a new table; the root's record is inserted by \<^verbatim>\<open>NewKeyRing\<close>.
\<close>

definition newKeyTable :: "string \<Rightarrow> PublicKey \<Rightarrow> keyTable" where
  "newKeyTable owner key = Map.empty"

text \<open>
  Modelled from the spec: \<^verbatim>\<open>keyTable.add\<close> is missing. "insert or replace; on replace,
  confidence from rec is authoritative."
\<close>

definition kt_add :: "TrustedKeyRecord \<Rightarrow> keyTable \<Rightarrow> keyTable" where
  "kt_add rec table = table(Owner rec \<mapsto> rec)"

text \<open>
  Modelled from the spec: \<^verbatim>\<open>keyTable.get\<close> is missing. "returns the record plus a
  present/absent indicator"; the record returned with "absent" is taken to be the
  zero value.
\<close>

definition kt_get :: "keyTable \<Rightarrow> string \<Rightarrow> TrustedKeyRecord \<times> bool" where
  "kt_get table name = (case table name of None \<Rightarrow> (zero_record, False) | Some rec \<Rightarrow> (rec, True))"

text \<open>
  Modelled from the spec: \<^verbatim>\<open>keyTable.updateConfidence\<close> is missing. "if name exists,
  replaces its stored public key with chosenKey and its confidence with newConfidence;
  if chosenKey is absent (e.g. unreachable target), the record's confidence is forced
  to 0 and the key is left or cleared. If name does not exist, the call is a no-op."
  The key is left here, as section 4.3 has it ("stored key unchanged").
\<close>

definition kt_updateConfidence :: "string \<Rightarrow> real \<Rightarrow> PublicKey option \<Rightarrow> keyTable \<Rightarrow> keyTable" where
  "kt_updateConfidence name confidence key table =
     (case table name of
        None \<Rightarrow> table
      | Some rec \<Rightarrow>
          (case key of
             None \<Rightarrow> table(name \<mapsto> rec\<lparr>Confidence := 0\<rparr>)
           | Some k \<Rightarrow> table(name \<mapsto> rec\<lparr>KeyPub := k, Confidence := confidence\<rparr>)))"

subsection \<open>The key ring\<close>

text \<open>
  \<^verbatim>\<open>ids\<close> maps a name to its \<^verbatim>\<open>*Node\<close>. A node's name and ID never change, and every
  node is created with a probability cell of its own that the graph's copy of the
  node shares, so \<open>ids\<close> holds the node's ID and \<open>probability\<close> holds the cell of
  each ID.
\<close>

record KeyRing =
  source :: string
  ids :: "(string \<times> nat) list"
  graph :: DirectedGraph
  probability :: "nat \<Rightarrow> real"
  nextNode :: nat
  keyTable :: keyTable
  pending :: "KeyExchangeMessage list"
  threshold :: real
  stopped :: bool

text \<open>The reputation oracle: \<^verbatim>\<open>Reputation(name)\<close> and its "present" flag; nil is \<open>None\<close>.\<close>

type_synonym ReputationTable = "string \<Rightarrow> real \<times> bool"

text \<open>
  The order in which \<^verbatim>\<open>range occurrences\<close> yields the entries of the map. Go leaves it
  unspecified and varies it from one loop to the next, so it is a parameter: a
  function from the entries (in insertion order) to the order of the visit.
\<close>

type_synonym map_order = "(keystr \<times> nat) list \<Rightarrow> (keystr \<times> nat) list"

definition contains :: "KeyRing \<Rightarrow> string \<Rightarrow> bool" where
  "contains ring name = (case map_of (ids ring) name of None \<Rightarrow> False | Some v \<Rightarrow> True)"

text \<open>
  \<^verbatim>\<open>lastNode\<close> ranges over the slice \<^verbatim>\<open>ring.graph.Nodes()\<close> with one loop variable, which
  is the index.
\<close>

definition lastNode :: "KeyRing \<Rightarrow> nat" where
  "lastNode ring = fold (\<lambda>n maxId. if n > maxId then n else maxId) [0..<length (nodes (graph ring))] 0"

definition addNode :: "string \<Rightarrow> real \<Rightarrow> KeyRing \<Rightarrow> KeyRing option" where
  "addNode name p ring =
     (case map_of (ids ring) name of
        Some v \<Rightarrow> Some (ring\<lparr>probability := (probability ring)(v := p)\<rparr>)
      | None \<Rightarrow>
          (let i = lastNode ring + 1 in
           case AddNode i (graph ring) of
             None \<Rightarrow> None
           | Some g \<Rightarrow>
               Some (ring\<lparr>ids := AList.update name i (ids ring),
                          graph := g,
                          probability := (probability ring)(i := p),
                          nextNode := nextNode ring + 1\<rparr>)))"

text \<open>
  \<^verbatim>\<open>addEdge\<close> returns an error (\<open>Inl\<close>) or nil with the edge set (\<open>Inr\<close>); \<open>None\<close> is the
  panic of \<^verbatim>\<open>SetEdge\<close>.
\<close>

definition addEdge :: "string \<Rightarrow> string \<Rightarrow> PublicKey \<Rightarrow> KeyRing \<Rightarrow> (string + KeyRing) option" where
  "addEdge a b key ring =
     (case map_of (ids ring) a of
        None \<Rightarrow> Some (Inl ''adding edge with source non present'')
      | Some vA \<Rightarrow>
          (case map_of (ids ring) b of
             None \<Rightarrow> Some (Inl ''adding edge with destination non present'')
           | Some vB \<Rightarrow>
               if a = b then Some (Inl ''adding edge between same vertices'')
               else (case SetEdge vA vB key (graph ring) of
                       None \<Rightarrow> None
                     | Some g \<Rightarrow> Some (Inr (ring\<lparr>graph := g\<rparr>)))))"

text \<open>\<open>1.0/distance\<close> after \<^verbatim>\<open>if distance == 0 { distance = 1 }\<close>; \<open>1/+Inf\<close> is 0.\<close>

definition inv_distance :: "nat option \<Rightarrow> real" where
  "inv_distance d = (case d of None \<Rightarrow> 0 | Some n \<Rightarrow> (if n = 0 then 1 else 1 / real n))"

definition phi :: "KeyRing \<Rightarrow> string \<Rightarrow> real \<Rightarrow> real option" where
  "phi ring name reputation =
     (case map_of (ids ring) name of
        None \<Rightarrow> Some 0
      | Some v \<Rightarrow>
          do {
            destNode \<leftarrow> Node (graph ring) v;
            s \<leftarrow> map_of (ids ring) (source ring);
            sourceNode \<leftarrow> Node (graph ring) s;
            Some (min (inv_distance (WeightTo (graph ring) sourceNode destNode)) reputation)
          })"

subsection \<open>Choosing the key of a target\<close>

text \<open>The key of the last edge of a path of at least two nodes; \<open>None\<close> is "edge disappeared".\<close>

definition lastEdgeKey :: "KeyRing \<Rightarrow> nat list \<Rightarrow> PublicKey option" where
  "lastEdgeKey ring p = Edge (graph ring) (p ! (length p - 2)) (p ! (length p - 1))"

definition incr :: "keystr \<Rightarrow> (keystr \<times> nat) list \<Rightarrow> (keystr \<times> nat) list" where
  "incr k occ = AList.update k (case map_of occ k of None \<Rightarrow> 1 | Some c \<Rightarrow> c + 1) occ"

text \<open>The first loop of \<^verbatim>\<open>selectBestPaths\<close>: the tally.\<close>

fun countOccurrences :: "KeyRing \<Rightarrow> nat list list \<Rightarrow> (keystr \<times> nat) list \<Rightarrow> (keystr \<times> nat) list option" where
  "countOccurrences ring [] occ = Some occ"
| "countOccurrences ring (p # ps) occ =
     (if length p < 2 then countOccurrences ring ps occ
      else (case lastEdgeKey ring p of
              None \<Rightarrow> None
            | Some key \<Rightarrow> countOccurrences ring ps (incr (keyString key) occ)))"

text \<open>The second loop: \<open>max\<close> and \<open>bkey\<close>; the empty \<open>bkey\<close> is \<open>None\<close>.\<close>

fun findMax :: "(keystr \<times> nat) list \<Rightarrow> nat \<Rightarrow> keystr option \<Rightarrow> nat \<times> keystr option" where
  "findMax [] mx bkey = (mx, bkey)"
| "findMax ((key, occ) # rest) mx bkey =
     (if occ > mx then findMax rest occ (Some key) else findMax rest mx bkey)"

text \<open>The third loop: the paths of the chosen key string, and the key of the last of them.\<close>

fun collectBest :: "KeyRing \<Rightarrow> keystr option \<Rightarrow> nat list list \<Rightarrow> nat list list \<times> PublicKey
    \<Rightarrow> (nat list list \<times> PublicKey) option" where
  "collectBest ring bkey [] acc = Some acc"
| "collectBest ring bkey (p # ps) acc =
     (if length p < 2 then collectBest ring bkey ps acc
      else (case lastEdgeKey ring p of
              None \<Rightarrow> None
            | Some key \<Rightarrow>
                if bkey = Some (keyString key)
                then collectBest ring bkey ps (fst acc @ [p], key)
                else collectBest ring bkey ps acc))"

definition selectBestPaths :: "map_order \<Rightarrow> KeyRing \<Rightarrow> nat list list
    \<Rightarrow> (nat list list \<times> PublicKey option) option" where
  "selectBestPaths ord ring paths =
     (case paths of
        [] \<Rightarrow> Some (paths, None)
      | [p] \<Rightarrow>
          if length p < 2 then Some (paths, None)
          else (case lastEdgeKey ring p of
                  None \<Rightarrow> None
                | Some key \<Rightarrow> Some (paths, Some key))
      | _ \<Rightarrow>
          do {
            occurrences \<leftarrow> countOccurrences ring paths [];
            (bestPaths, bestKey) \<leftarrow>
              collectBest ring (snd (findMax (ord occurrences) 0 None)) paths ([], zero_key);
            Some (bestPaths, Some bestKey)
          })"

subsection \<open>Confidence\<close>

text \<open>
  Modelled from the spec: \<^verbatim>\<open>probabilityOfMinPaths\<close> is missing. "Each retained path p has
  probability = the product of the trust probabilities of its internal nodes (excluding
  the terminal; the root contributes 1.0). Target confidence = 1 - the product over p of
  (1 - probability(p))."
\<close>

definition pathProbability :: "(nat \<Rightarrow> real) \<Rightarrow> nat list \<Rightarrow> real" where
  "pathProbability pr p = prod_list (map pr (butlast (tl p)))"

definition probabilityOfMinPaths :: "(nat \<Rightarrow> real) \<Rightarrow> nat list list \<Rightarrow> real" where
  "probabilityOfMinPaths pr paths = 1 - prod_list (map (\<lambda>p. 1 - pathProbability pr p) paths)"

text \<open>The body of the loop of \<^verbatim>\<open>updateConfidence\<close> for one name of \<open>ids\<close>.\<close>

definition confidenceStep :: "map_order \<Rightarrow> nat \<Rightarrow> string \<Rightarrow> KeyRing \<Rightarrow> KeyRing option" where
  "confidenceStep ord src terminalName ring =
     do {
       terminalVertex \<leftarrow> map_of (ids ring) terminalName;
       terminal \<leftarrow> Node (graph ring) terminalVertex;
       (minpaths, bestKey) \<leftarrow> selectBestPaths ord ring (AllBetween (graph ring) src terminal);
       Some (ring\<lparr>keyTable :=
         kt_updateConfidence terminalName (probabilityOfMinPaths (probability ring) minpaths)
           bestKey (keyTable ring)\<rparr>)
     }"

fun confidenceLoop :: "map_order \<Rightarrow> nat \<Rightarrow> string list \<Rightarrow> KeyRing \<Rightarrow> KeyRing option" where
  "confidenceLoop ord src [] ring = Some ring"
| "confidenceLoop ord src (name # names) ring =
     (case confidenceStep ord src name ring of
        None \<Rightarrow> None
      | Some ring' \<Rightarrow> confidenceLoop ord src names ring')"

text \<open>\<^verbatim>\<open>range ring.ids\<close> visits every name of the map once.\<close>

definition names :: "KeyRing \<Rightarrow> string list" where
  "names ring = remdups (map fst (ids ring))"

definition updateConfidence :: "map_order \<Rightarrow> KeyRing \<Rightarrow> KeyRing option" where
  "updateConfidence ord ring =
     do {
       s \<leftarrow> map_of (ids ring) (source ring);
       src \<leftarrow> Node (graph ring) s;
       confidenceLoop ord src (names ring) ring
     }"

subsection \<open>The API\<close>

fun bootstrap :: "nat \<Rightarrow> TrustedKeyRecord list \<Rightarrow> KeyRing \<Rightarrow> KeyRing option" where
  "bootstrap src [] ring = Some ring"
| "bootstrap src (rec # recs) ring =
     (let i = nextNode ring in
      case AddNode i (graph ring) of
        None \<Rightarrow> None
      | Some g \<Rightarrow>
          (case SetEdge src i (KeyPub rec) g of
             None \<Rightarrow> None
           | Some g' \<Rightarrow>
               bootstrap src recs
                 (ring\<lparr>ids := AList.update (Owner rec) i (ids ring),
                       graph := g',
                       probability := (probability ring)(i := 1),
                       nextNode := i + 1,
                       keyTable := kt_add \<lparr>Owner = Owner rec, KeyPub = KeyPub rec,
                                           Confidence = Confidence rec\<rparr> (keyTable ring)\<rparr>)))"

text \<open>
  \<^verbatim>\<open>NewKeyRing\<close>. The source builds the parts in local variables and assembles the ring
  at the end; here the ring is threaded through the loop over the bootstrap records.
\<close>

definition NewKeyRing :: "string \<Rightarrow> PublicKey \<Rightarrow> TrustedKeyRecord list \<Rightarrow> real \<Rightarrow> KeyRing option" where
  "NewKeyRing owner key trustedRecords thr =
     (case AddNode 0 NewDirectedGraph of
        None \<Rightarrow> None
      | Some g \<Rightarrow>
          bootstrap 0 trustedRecords
            \<lparr>source = owner,
             ids = AList.update owner 0 [],
             graph = g,
             probability = (\<lambda>_. 0)(0 := 1),
             nextNode = 1,
             keyTable = kt_add \<lparr>Owner = owner, KeyPub = key, Confidence = 1\<rparr> (newKeyTable owner key),
             pending = [],
             threshold = thr,
             stopped = False\<rparr>)"


definition GetKey :: "KeyRing \<Rightarrow> string \<Rightarrow> PublicKey \<times> bool" where
  "GetKey ring name =
     (let (rec, ok) = kt_get (keyTable ring) name in
      if \<not> ok then (KeyPub rec, ok)
      else if Confidence rec < threshold ring then (zero_key, False)
      else (KeyPub rec, ok))"

definition GetRecord :: "KeyRing \<Rightarrow> string \<Rightarrow> TrustedKeyRecord \<times> bool" where
  "GetRecord ring name = kt_get (keyTable ring) name"

definition AddUnverified :: "KeyExchangeMessage \<Rightarrow> KeyRing \<Rightarrow> KeyRing" where
  "AddUnverified msg ring = ring\<lparr>pending := pending ring @ [msg]\<rparr>"

definition Add :: "map_order \<Rightarrow> KeyRecord \<Rightarrow> string \<Rightarrow> real \<Rightarrow> KeyRing \<Rightarrow> KeyRing option" where
  "Add ord rec sigOrigin reputationOwner ring =
     (if \<not> contains ring sigOrigin then Some ring
      else if Owner rec = sigOrigin then Some ring
      else
        do {
          r1 \<leftarrow> addNode (Owner rec) 0 ring;
          e \<leftarrow> addEdge sigOrigin (Owner rec) (KeyPub rec) r1;
          r2 \<leftarrow> (case e of Inl err \<Rightarrow> None | Inr r \<Rightarrow> Some r);
          p \<leftarrow> phi r2 (Owner rec) reputationOwner;
          r3 \<leftarrow> addNode (Owner rec) p r2;
          updateConfidence ord r3
        })"

subsection \<open>The periodic updates\<close>

definition reputationOf :: "ReputationTable option \<Rightarrow> string \<Rightarrow> real" where
  "reputationOf reptable name =
     (case reptable of
        None \<Rightarrow> 1 / 2
      | Some table \<Rightarrow> (let (rep, present) = table name in if \<not> present then 1 / 2 else rep))"



text \<open>
  \<^verbatim>\<open>DeserializeKey\<close> and \<^verbatim>\<open>Verify\<close> are not among the sources at hand; they are parameters:
  \<open>deserialize\<close> yields \<open>None\<close> for an error, \<open>verify\<close> is true for a nil error.
\<close>

definition updateMessage :: "(string \<Rightarrow> PublicKey option) \<Rightarrow> (KeyExchangeMessage \<Rightarrow> PublicKey \<Rightarrow> bool)
    \<Rightarrow> map_order \<Rightarrow> KeyExchangeMessage \<Rightarrow> real \<Rightarrow> KeyRing \<Rightarrow> (bool \<times> KeyRing) option" where
  "updateMessage deserialize verify ord msg confidenceOwner ring =
     (case deserialize (KeyBytes msg) of
        None \<Rightarrow> Some (True, ring)
      | Some receivedKey \<Rightarrow>
          (let (kpub, present) = GetKey ring (Origin msg) in
           if \<not> present then Some (False, ring)
           else if verify msg kpub then
             (case Add ord \<lparr>Owner = MsgOwner msg, KeyPub = receivedKey\<rparr> (Origin msg)
                     confidenceOwner ring of
                None \<Rightarrow> None
              | Some ring' \<Rightarrow> Some (True, ring'))
           else Some (False, ring)))"

text \<open>
  The first loop of \<^verbatim>\<open>updatePending\<close>, over the elements of the queue from the front;
  \<open>i\<close> is the position of the element, \<open>toRemove\<close> the positions pushed so far.
\<close>

fun pendingLoop :: "(string \<Rightarrow> PublicKey option) \<Rightarrow> (KeyExchangeMessage \<Rightarrow> PublicKey \<Rightarrow> bool)
    \<Rightarrow> map_order \<Rightarrow> ReputationTable option \<Rightarrow> KeyExchangeMessage list \<Rightarrow> nat \<Rightarrow> nat list
    \<Rightarrow> KeyRing \<Rightarrow> (nat list \<times> KeyRing) option" where
  "pendingLoop deserialize verify ord reptable [] i toRemove ring = Some (toRemove, ring)"
| "pendingLoop deserialize verify ord reptable (msg # rest) i toRemove ring =
     (case updateMessage deserialize verify ord msg (2 * reputationOf reptable (MsgOwner msg)) ring of
        None \<Rightarrow> None
      | Some (ok, ring') \<Rightarrow>
          pendingLoop deserialize verify ord reptable rest (i + 1)
            (if ok then toRemove @ [i] else toRemove) ring')"

text \<open>
  The second loop of \<^verbatim>\<open>updatePending\<close>:
  \<^verbatim>\<open>for e := ring.pending.Front(); e != nil; e = e.Next() { ring.pending.Remove(e) }\<close>.
  \<^verbatim>\<open>Remove\<close> of container/list clears the links of the element, so \<^verbatim>\<open>e.Next()\<close> is nil
  after the first removal: the loop removes the front element and stops.
\<close>

definition drain :: "'a list \<Rightarrow> 'a list" where
  "drain q = (case q of [] \<Rightarrow> [] | e # rest \<Rightarrow> rest)"

text \<open>\<open>markPending\<close> is \<^verbatim>\<open>updatePending\<close> up to its second loop, with \<open>toRemove\<close>.\<close>

definition markPending :: "(string \<Rightarrow> PublicKey option) \<Rightarrow> (KeyExchangeMessage \<Rightarrow> PublicKey \<Rightarrow> bool)
    \<Rightarrow> map_order \<Rightarrow> ReputationTable option \<Rightarrow> KeyRing \<Rightarrow> (nat list \<times> KeyRing) option" where
  "markPending deserialize verify ord reptable ring =
     pendingLoop deserialize verify ord reptable (pending ring) 0 [] ring"

definition updatePending :: "(string \<Rightarrow> PublicKey option) \<Rightarrow> (KeyExchangeMessage \<Rightarrow> PublicKey \<Rightarrow> bool)
    \<Rightarrow> map_order \<Rightarrow> ReputationTable option \<Rightarrow> KeyRing \<Rightarrow> KeyRing option" where
  "updatePending deserialize verify ord reptable ring =
     (case markPending deserialize verify ord reptable ring of
        None \<Rightarrow> None
      | Some (toRemove, ring') \<Rightarrow> Some (ring'\<lparr>pending := drain (pending ring')\<rparr>))"

subsection \<open>Example rings\<close>

definition K_R :: PublicKey where
  "K_R = \<lparr>N = Some 11, E = 3\<rparr>"

definition K_B :: PublicKey where
  "K_B = \<lparr>N = Some 13, E = 3\<rparr>"

definition K_C :: PublicKey where
  "K_C = \<lparr>N = Some 17, E = 3\<rparr>"

text \<open>
  Scenario S1: the ring of root R with the one bootstrap record of B, confidence 0.9,
  and threshold 0.5.
\<close>

definition ring_S1 :: KeyRing where
  "ring_S1 =
     \<lparr>source = ''R'',
      ids = [(''R'', 0), (''B'', 1)],
      graph = \<lparr>nodes = [0, 1], edges = [((0, 1), K_B)]\<rparr>,
      probability = (\<lambda>_. 0)(0 := 1, 1 := 1),
      nextNode = 2,
      keyTable = [''R'' \<mapsto> \<lparr>Owner = ''R'', KeyPub = K_R, Confidence = 1\<rparr>,
                  ''B'' \<mapsto> \<lparr>Owner = ''B'', KeyPub = K_B, Confidence = 9 / 10\<rparr>],
      pending = [],
      threshold = 1 / 2,
      stopped = False\<rparr>"

text \<open>A message whose key bytes do not deserialize.\<close>

definition msg_bad :: KeyExchangeMessage where
  "msg_bad = \<lparr>Origin = ''B'', MsgOwner = ''C'', KeyBytes = ''junk'', Signature = []\<rparr>"

text \<open>
  The ring after \<^verbatim>\<open>Add({C, K_C}, "B", 0.5)\<close> on the ring of scenario S1 (scenario S2).
\<close>

definition ring_S2 :: KeyRing where
  "ring_S2 =
     \<lparr>source = ''R'',
      ids = [(''R'', 0), (''B'', 1), (''C'', 2)],
      graph = \<lparr>nodes = [0, 1, 2], edges = [((0, 1), K_B), ((1, 2), K_C)]\<rparr>,
      probability = (\<lambda>_. 0)(0 := 1, 1 := 1, 2 := 1 / 2),
      nextNode = 3,
      keyTable = [''R'' \<mapsto> \<lparr>Owner = ''R'', KeyPub = K_R, Confidence = 0\<rparr>,
                  ''B'' \<mapsto> \<lparr>Owner = ''B'', KeyPub = K_B, Confidence = 1\<rparr>],
      pending = [],
      threshold = 1 / 2,
      stopped = False\<rparr>"

text \<open>A message of a signer the ring does not know.\<close>

definition msg_X :: KeyExchangeMessage where
  "msg_X = \<lparr>Origin = ''X'', MsgOwner = ''Y'', KeyBytes = ''key of Y'', Signature = ''sig''\<rparr>"

subsection \<open>Predicates of the properties\<close>

text \<open>The graph has an edge from the node of \<open>a\<close> to the node of \<open>b\<close> that carries \<open>key\<close>.\<close>

definition hasEdge :: "KeyRing \<Rightarrow> string \<Rightarrow> string \<Rightarrow> PublicKey \<Rightarrow> bool" where
  "hasEdge ring a b key =
     (case map_of (ids ring) a of
        None \<Rightarrow> False
      | Some vA \<Rightarrow>
          (case map_of (ids ring) b of
             None \<Rightarrow> False
           | Some vB \<Rightarrow> Edge (graph ring) vA vB = Some key))"



section \<open>Properties\<close>

subsection \<open>The example rings are built by the API\<close>

lemma NewKeyRing_S1:
  "NewKeyRing ''R'' K_R [\<lparr>Owner = ''B'', KeyPub = K_B, Confidence = 9 / 10\<rparr>] (1 / 2) = Some ring_S1"
  by (simp add: NewKeyRing_def NewDirectedGraph_def AddNode_def SetEdge_def ensureNode_def
      kt_add_def newKeyTable_def ring_S1_def)

subsection \<open>Evaluating the examples\<close>

lemmas graph_eval = AllBetween_def WeightTo_def walks_to_def succs_def Node_def Edge_def
  AddNode_def SetEdge_def ensureNode_def

lemmas ring_eval = Add_def contains_def ring_S1_def addNode_def lastNode_def addEdge_def phi_def
     updateConfidence_def names_def confidenceStep_def selectBestPaths_def lastEdgeKey_def
     graph_eval inv_distance_def kt_updateConfidence_def probabilityOfMinPaths_def pathProbability_def
     GetKey_def kt_get_def Let_def upt_rec numeral_2_eq_2 numeral_3_eq_3 zero_record_def

lemma Add_S1_C:
  "Add ord \<lparr>Owner = ''C'', KeyPub = K_C\<rparr> ''B'' (1 / 2) ring_S1 = Some ring_S2"
  by (simp add: ring_eval ring_S2_def fun_eq_iff)

subsection \<open>The parts of the ring that an operation leaves alone\<close>

lemma confidenceStep_frame:
  "confidenceStep ord src name ring = Some r \<Longrightarrow> \<exists>kt. r = ring\<lparr>keyTable := kt\<rparr>"
  by (auto simp: confidenceStep_def split: Option.bind_splits)

lemma confidenceLoop_frame:
  "confidenceLoop ord src ns ring = Some r \<Longrightarrow> \<exists>kt. r = ring\<lparr>keyTable := kt\<rparr>"
proof (induction ns arbitrary: ring)
  case Nil
  then have "r = ring\<lparr>keyTable := keyTable ring\<rparr>" by simp
  then show ?case by blast
next
  case (Cons n ns)
  from Cons.prems obtain r1 where s: "confidenceStep ord src n ring = Some r1"
    and l: "confidenceLoop ord src ns r1 = Some r"
    by (auto split: option.splits)
  from confidenceStep_frame [OF s] obtain kt1 where "r1 = ring\<lparr>keyTable := kt1\<rparr>" ..
  moreover from Cons.IH [OF l] obtain kt where "r = r1\<lparr>keyTable := kt\<rparr>" ..
  ultimately have "r = ring\<lparr>keyTable := kt\<rparr>" by simp
  then show ?case by blast
qed

lemma updateConfidence_frame:
  "updateConfidence ord ring = Some r \<Longrightarrow> \<exists>kt. r = ring\<lparr>keyTable := kt\<rparr>"
  by (auto simp: updateConfidence_def split: Option.bind_splits dest: confidenceLoop_frame)

lemma addNode_known:
  "map_of (ids ring) name = Some v \<Longrightarrow>
     addNode name p ring = Some (ring\<lparr>probability := (probability ring)(v := p)\<rparr>)"
  by (simp add: addNode_def)

lemma addNode_ids:
  assumes "addNode name p ring = Some r"
  shows "map_of (ids r) name \<noteq> None"
    and "map_of (ids ring) n = Some v \<Longrightarrow> map_of (ids r) n = Some v"
proof -
  show "map_of (ids r) name \<noteq> None"
    using assms
    by (cases "map_of (ids ring) name"; cases "AddNode (lastNode ring + 1) (graph ring)")
       (auto simp: addNode_def Let_def update_conv')
  show "map_of (ids ring) n = Some v \<Longrightarrow> map_of (ids r) n = Some v"
    using assms
    by (cases "map_of (ids ring) name"; cases "AddNode (lastNode ring + 1) (graph ring)")
       (auto simp: addNode_def Let_def update_conv')
qed

lemma addEdge_hasEdge:
  "addEdge a b key ring = Some (Inr r) \<Longrightarrow> hasEdge r a b key \<and> ids r = ids ring"
  by (auto simp: addEdge_def hasEdge_def SetEdge_def Edge_def update_conv'
      split: option.splits if_splits)

lemma hasEdge_frame:
  "ids r' = ids r \<Longrightarrow> graph r' = graph r \<Longrightarrow> hasEdge r' a b key = hasEdge r a b key"
  by (simp add: hasEdge_def cong: option.case_cong)


lemma Add_steps:
  assumes "Add ord rec sigOrigin rep ring = Some ring'" "contains ring sigOrigin" "Owner rec \<noteq> sigOrigin"
  shows "\<exists>r1 r2 p r3. addNode (Owner rec) 0 ring = Some r1 \<and>
    addEdge sigOrigin (Owner rec) (KeyPub rec) r1 = Some (Inr r2) \<and>
    addNode (Owner rec) p r2 = Some r3 \<and>
    updateConfidence ord r3 = Some ring'"
  using assms unfolding Add_def
  apply (simp split: Option.bind_splits sum.splits)
  apply blast
  done

lemma updateConfidence_ids_graph: "updateConfidence ord r3 = Some ring' \<Longrightarrow> ids ring' = ids r3 \<and> graph ring' = graph r3"
  by (drule updateConfidence_frame) auto


subsection \<open>Add\<close>

text \<open>
  C2, as the code has it. After \<^verbatim>\<open>Add(r, s, _)\<close> returns, either s was not a known
  node or s is the owner of r, and the whole ring is unchanged, or the graph has an edge
  from s to the owner of r that carries the public key of r. (The claim as stated has
  no case for the self-signed record, which \<^verbatim>\<open>Add\<close> rejects, and promises a record of
  the owner in the key table.)
\<close>

theorem Add_postcondition:
  assumes "Add ord rec sigOrigin rep ring = Some ring'"
  shows "((\<not> contains ring sigOrigin \<or> Owner rec = sigOrigin) \<and> ring' = ring) \<or>
         hasEdge ring' sigOrigin (Owner rec) (KeyPub rec)"
proof (cases "contains ring sigOrigin \<and> Owner rec \<noteq> sigOrigin")
  case False
  with assms have "ring' = ring"
    unfolding Add_def by (simp split: if_splits)
  with False show ?thesis by blast
next
  case True
  with Add_steps [OF assms] obtain r1 r2 p r3 where
    r1: "addNode (Owner rec) 0 ring = Some r1" and
    r2: "addEdge sigOrigin (Owner rec) (KeyPub rec) r1 = Some (Inr r2)" and
    r3: "addNode (Owner rec) p r2 = Some r3" and
    r': "updateConfidence ord r3 = Some ring'"
    by blast
  from addEdge_hasEdge [OF r2] have e2: "hasEdge r2 sigOrigin (Owner rec) (KeyPub rec)"
    and i2: "ids r2 = ids r1" by simp_all
  from addNode_ids(1) [OF r1] i2 obtain v where v: "map_of (ids r2) (Owner rec) = Some v"
    by (cases "map_of (ids r2) (Owner rec)") simp_all
  from r3 addNode_known [OF v, of p] have "r3 = r2\<lparr>probability := (probability r2)(v := p)\<rparr>"
    by simp
  then have f3: "ids r3 = ids r2" "graph r3 = graph r2" by simp_all
  from updateConfidence_ids_graph [OF r'] f3 have "ids ring' = ids r2" "graph ring' = graph r2"
    by simp_all
  then have "hasEdge ring' sigOrigin (Owner rec) (KeyPub rec) = hasEdge r2 sigOrigin (Owner rec) (KeyPub rec)"
    by (rule hasEdge_frame)
  with e2 show ?thesis by simp
qed

theorem Add_postcondition_witness:
  "Add id \<lparr>Owner = ''C'', KeyPub = K_C\<rparr> ''B'' (1 / 2) ring_S1 = Some ring_S2 \<and>
   contains ring_S1 ''B'' \<and> hasEdge ring_S2 ''B'' ''C'' K_C"
proof -
  have r: "Add id \<lparr>Owner = ''C'', KeyPub = K_C\<rparr> ''B'' (1 / 2) ring_S1 = Some ring_S2"
    by (rule Add_S1_C)
  have k: "contains ring_S1 ''B''"
    by (simp add: contains_def ring_S1_def)
  from Add_postcondition [OF r] k have "hasEdge ring_S2 ''B'' ''C'' K_C"
    by simp
  with r k show ?thesis by blast
qed

text \<open>
  The claim C2 as stated fails for a self-signed record: B is a known node, \<^verbatim>\<open>Add\<close>
  returns with the ring unchanged, and there is no edge from B to B.
\<close>

theorem Add_self_signed_counterexample:
  "contains ring_S1 ''B'' \<and>
   Add id \<lparr>Owner = ''B'', KeyPub = K_C\<rparr> ''B'' (1 / 2) ring_S1 = Some ring_S1 \<and>
   \<not> hasEdge ring_S1 ''B'' ''B'' K_C"
  by (simp add: Add_def contains_def hasEdge_def Edge_def ring_S1_def)

text \<open>
  C3 at its input (scenario S2): \<^verbatim>\<open>Add({C, K_C}, "B", 0.5)\<close> on the ring of S1 returns, and
  the graph has the path R, B, C as the one shortest path to C; but the key table has
  no record of C (\<^verbatim>\<open>Add\<close> inserts none, and the update of the confidence of an unknown
  name does nothing), so C has no stored confidence and \<^verbatim>\<open>GetKey\<close> reports C absent.
\<close>

theorem Add_two_hop_no_record:
  "NewKeyRing ''R'' K_R [\<lparr>Owner = ''B'', KeyPub = K_B, Confidence = 9 / 10\<rparr>] (1 / 2) = Some ring_S1 \<and>
   Add ord \<lparr>Owner = ''C'', KeyPub = K_C\<rparr> ''B'' (1 / 2) ring_S1 = Some ring_S2 \<and>
   AllBetween (graph ring_S2) 0 2 = [[0, 1, 2]] \<and>
   keyTable ring_S2 ''C'' = None \<and>
   GetKey ring_S2 ''C'' = (zero_key, False)"
proof -
  have "AllBetween (graph ring_S2) 0 2 = [[0, 1, 2]]"
    by (simp add: ring_S2_def graph_eval upt_rec numeral_2_eq_2)
  moreover have "keyTable ring_S2 ''C'' = None"
    by (simp add: ring_S2_def)
  moreover have "GetKey ring_S2 ''C'' = (zero_key, False)"
    by (simp add: ring_S2_def GetKey_def kt_get_def zero_record_def)
  ultimately show ?thesis
    using NewKeyRing_S1 Add_S1_C by simp
qed

subsection \<open>The confidence of the root\<close>

text \<open>
  C7 at a failing input: the root's record has confidence 1 after the construction, and
  confidence 0 after the first \<^verbatim>\<open>Add\<close> of a known signer. \<^verbatim>\<open>updateConfidence\<close> visits the
  root as it visits every name; the one path from the root to itself has no edge, so no
  key is chosen, and the key table sets the confidence of a record without a chosen key
  to 0.
\<close>

theorem root_confidence_lost:
  "NewKeyRing ''R'' K_R [\<lparr>Owner = ''B'', KeyPub = K_B, Confidence = 9 / 10\<rparr>] (1 / 2) = Some ring_S1 \<and>
   map_option Confidence (keyTable ring_S1 ''R'') = Some 1 \<and>
   Add ord \<lparr>Owner = ''C'', KeyPub = K_C\<rparr> ''B'' (1 / 2) ring_S1 = Some ring_S2 \<and>
   map_option Confidence (keyTable ring_S2 ''R'') = Some 0 \<and>
   GetKey ring_S2 ''R'' = (zero_key, False)"
proof -
  have "map_option Confidence (keyTable ring_S1 ''R'') = Some 1"
    by (simp add: ring_S1_def)
  moreover have "map_option Confidence (keyTable ring_S2 ''R'') = Some 0"
    by (simp add: ring_S2_def)
  moreover have "GetKey ring_S2 ''R'' = (zero_key, False)"
    by (simp add: ring_S2_def GetKey_def kt_get_def)
  ultimately show ?thesis
    using NewKeyRing_S1 Add_S1_C by simp
qed

subsection \<open>The pending queue\<close>

text \<open>
  C4 at two failing inputs. A message whose signer has no key in the ring is not marked
  for removal, and \<^verbatim>\<open>updatePending\<close> removes it all the same: it is the front of the
  queue. Of two messages that are both marked (their keys do not deserialize), only the
  first is removed.
\<close>

theorem updatePending_removes_front_only:
  "markPending (\<lambda>_. Some K_C) verify ord reptable (AddUnverified msg_X ring_S1) =
     Some ([], AddUnverified msg_X ring_S1) \<and>
   updatePending (\<lambda>_. Some K_C) verify ord reptable (AddUnverified msg_X ring_S1) = Some ring_S1 \<and>
   markPending (\<lambda>_. None) verify ord reptable (AddUnverified msg_X (AddUnverified msg_bad ring_S1)) =
     Some ([0, 1], AddUnverified msg_X (AddUnverified msg_bad ring_S1)) \<and>
   map_option pending
     (updatePending (\<lambda>_. None) verify ord reptable (AddUnverified msg_X (AddUnverified msg_bad ring_S1))) =
     Some [msg_X]"
  by (simp add: markPending_def updatePending_def updateMessage_def AddUnverified_def drain_def
      GetKey_def kt_get_def ring_S1_def msg_X_def msg_bad_def)

subsection \<open>Functions that read only a part of the ring\<close>

lemma lastEdgeKey_graph: "graph r' = graph r \<Longrightarrow> lastEdgeKey r' p = lastEdgeKey r p"
  by (simp add: lastEdgeKey_def)

lemma countOccurrences_graph:
  "graph r' = graph r \<Longrightarrow> countOccurrences r' ps occ = countOccurrences r ps occ"
  by (induction ps arbitrary: occ) (auto simp: lastEdgeKey_graph [of r' r] split: option.splits)

lemma collectBest_graph:
  "graph r' = graph r \<Longrightarrow> collectBest r' bkey ps acc = collectBest r bkey ps acc"
  by (induction ps arbitrary: acc) (auto simp: lastEdgeKey_graph [of r' r] split: option.splits)

lemma selectBestPaths_graph:
  assumes "graph r' = graph r"
  shows "selectBestPaths ord r' ps = selectBestPaths ord r ps"
proof -
  have L: "\<And>p. lastEdgeKey r' p = lastEdgeKey r p"
    using assms by (rule lastEdgeKey_graph)
  have C: "\<And>occ. countOccurrences r' ps occ = countOccurrences r ps occ"
    using assms by (rule countOccurrences_graph)
  have B: "\<And>bkey acc. collectBest r' bkey ps acc = collectBest r bkey ps acc"
    using assms by (rule collectBest_graph)
  show ?thesis
    unfolding selectBestPaths_def L C B by (rule refl)
qed

lemma phi_frame:
  "ids r' = ids r \<Longrightarrow> graph r' = graph r \<Longrightarrow> source r' = source r \<Longrightarrow>
     phi r' name rep = phi r name rep"
  by (simp add: phi_def cong: option.case_cong Option.bind_cong)

subsection \<open>The distance of the library is the hop distance\<close>

lemma WeightTo_self: "WeightTo g u u = Some 0"
  by (simp add: WeightTo_def walks_to_def upt_rec)

lemma WeightTo_least:
  assumes "WeightTo g u v = Some n"
  shows "walks_to g n u v \<noteq> []" and "m < n \<Longrightarrow> walks_to g m u v = []"
proof -
  from assms obtain i where i: "i < length [0..<Suc (length (edges g))]"
    and n: "[0..<Suc (length (edges g))] ! i = n"
    and w: "walks_to g n u v \<noteq> []"
    and l: "\<And>j. j < i \<Longrightarrow> \<not> walks_to g ([0..<Suc (length (edges g))] ! j) u v \<noteq> []"
    unfolding WeightTo_def find_Some_iff by blast
  from i have i': "i < Suc (length (edges g))"
    by (simp del: upt_Suc)
  with n have e: "i = n"
    by (simp del: upt_Suc)
  show "walks_to g n u v \<noteq> []" by (rule w)
  show "m < n \<Longrightarrow> walks_to g m u v = []"
    using l [of m] i' e by (simp del: upt_Suc)
qed

subsection \<open>updateTrust\<close>









subsection \<open>GetKey\<close>

text \<open>
  C1. \<^verbatim>\<open>GetKey(name)\<close> reports present if and only if the key table has a record for the
  name and the confidence of that record is at least the threshold of the ring; when it
  reports present, the key it returns is the stored public key of that record.
\<close>

theorem GetKey_present_iff:
  "(snd (GetKey ring name) \<longleftrightarrow>
      (\<exists>rec. keyTable ring name = Some rec \<and> threshold ring \<le> Confidence rec)) \<and>
   (\<forall>rec. snd (GetKey ring name) \<and> keyTable ring name = Some rec \<longrightarrow>
      fst (GetKey ring name) = KeyPub rec)"
  by (auto simp: GetKey_def kt_get_def split: option.splits)

theorem GetKey_present_iff_witness:
  "snd (GetKey ring_S1 ''B'') \<and> fst (GetKey ring_S1 ''B'') = K_B \<and> \<not> snd (GetKey ring_S1 ''C'')"
  using GetKey_present_iff [of ring_S1 "''B''"] GetKey_present_iff [of ring_S1 "''C''"]
  by (simp add: ring_S1_def)

subsection \<open>A message whose key does not deserialize\<close>

text \<open>
  C9. When the key bytes of a pending message fail \<^verbatim>\<open>DeserializeKey\<close>, \<^verbatim>\<open>updateMessage\<close>
  returns true and leaves the whole ring as it was, whatever \<^verbatim>\<open>Verify\<close> would answer:
  no signature is checked, \<^verbatim>\<open>Add\<close> is not called, the graph and the key table do not
  change.
\<close>

theorem updateMessage_bad_key:
  "deserialize (KeyBytes msg) = None \<Longrightarrow>
     updateMessage deserialize verify ord msg confidenceOwner ring = Some (True, ring)"
  by (simp add: updateMessage_def)

theorem updateMessage_bad_key_witness:
  "updateMessage (\<lambda>_. None) (\<lambda>_ _. True) id msg_bad 1 ring_S1 = Some (True, ring_S1)"
  using updateMessage_bad_key [of "\<lambda>_. None" msg_bad "\<lambda>_ _. True" id 1 ring_S1]
  by simp

subsection \<open>Stop\<close>

lemma phi_stopped [simp]: "phi (ring\<lparr>stopped := b\<rparr>) name rep = phi ring name rep"
  by (rule phi_frame) simp_all

lemma addNode_stopped [simp]:
  "addNode name p (ring\<lparr>stopped := b\<rparr>) = map_option (\<lambda>r. r\<lparr>stopped := b\<rparr>) (addNode name p ring)"
  by (simp add: addNode_def lastNode_def Let_def split: option.splits)

lemma addEdge_stopped [simp]:
  "addEdge a c key (ring\<lparr>stopped := b\<rparr>) =
     map_option (map_sum id (\<lambda>r. r\<lparr>stopped := b\<rparr>)) (addEdge a c key ring)"
  by (simp add: addEdge_def split: option.splits)

lemma confidenceStep_stopped [simp]:
  "confidenceStep ord src name (ring\<lparr>stopped := b\<rparr>) =
     map_option (\<lambda>r. r\<lparr>stopped := b\<rparr>) (confidenceStep ord src name ring)"
  by (auto simp: confidenceStep_def selectBestPaths_graph [of "ring\<lparr>stopped := b\<rparr>" ring]
      split: Option.bind_splits)

lemma confidenceLoop_stopped [simp]:
  "confidenceLoop ord src ns (ring\<lparr>stopped := b\<rparr>) =
     map_option (\<lambda>r. r\<lparr>stopped := b\<rparr>) (confidenceLoop ord src ns ring)"
  by (induction ns arbitrary: ring) (auto split: option.splits)

lemma updateConfidence_stopped [simp]:
  "updateConfidence ord (ring\<lparr>stopped := b\<rparr>) =
     map_option (\<lambda>r. r\<lparr>stopped := b\<rparr>) (updateConfidence ord ring)"
  by (auto simp: updateConfidence_def names_def split: Option.bind_splits)


end
